theory Spec2Isabelle
  imports Complex_Main "HOL-Library.Word"
begin

section \<open>Errors\<close>

text \<open>
  The exceptions the modelled code can raise. \<open>PoolNotRunning\<close> is what
  \<open>ThreadPool.map\<close> raises on a pool that was closed; \<open>TransformError\<close> is whatever
  the external LZ4 functions raise; \<open>InvalidStateError\<close> belongs to the request
  transitions of the specification.
\<close>

datatype error =
    ValueError
  | AttributeError
  | TypeError
  | PoolNotRunning
  | TransformError nat
  | InvalidStateError

section \<open>arctic/async/async\_utils.py\<close>

datatype AsyncRequestType = MODIFIER | ACCESSOR

text \<open>
  The attributes of \<open>AsyncRequest\<close>. Timestamps are the values of \<open>time.time()\<close>,
  taken as real numbers; an attribute that holds \<open>None\<close> is \<open>None\<close> here.
\<close>

record ('f, 'v) AsyncRequest =
  uid :: nat
  func :: 'f
  args :: "'v list"
  kwargs :: "(string \<times> 'v) list"
  kind :: AsyncRequestType
  library :: string
  symbol :: "'v option"
  future :: "nat option"
  data :: "'v option"
  exception :: "error option"
  start_time :: "real option"
  end_time :: "real option"
  create_time :: real

text \<open>
  \<open>__init__\<close>: the fresh \<open>uuid.uuid4()\<close> and the reading of \<open>time.time()\<close> are
  parameters.
\<close>

definition AsyncRequest_init ::
  "nat \<Rightarrow> real \<Rightarrow> AsyncRequestType \<Rightarrow> string \<Rightarrow> 'f \<Rightarrow> 'v list \<Rightarrow> (string \<times> 'v) list
    \<Rightarrow> ('f, 'v) AsyncRequest" where
  "AsyncRequest_init new_uuid now k lib f as kws =
     \<lparr> uid = new_uuid, func = f, args = as, kwargs = kws,
       kind = k, library = lib, symbol = map_of kws ''symbol'',
       future = None, data = None, exception = None,
       start_time = None, end_time = None, create_time = now \<rparr>"

text \<open>
  \<open>execution_duration\<close> tests \<open>end_time\<close> only; with \<open>end_time\<close> set and
  \<open>start_time\<close> still \<open>None\<close> the subtraction \<open>float - None\<close> raises \<open>TypeError\<close>.
\<close>

definition execution_duration :: "('f, 'v) AsyncRequest \<Rightarrow> error + real" where
  "execution_duration r =
     (case end_time r of
        None \<Rightarrow> Inr (- 1)
      | Some e \<Rightarrow> (case start_time r of None \<Rightarrow> Inl TypeError | Some b \<Rightarrow> Inr (e - b)))"

definition schedule_delay :: "('f, 'v) AsyncRequest \<Rightarrow> real" where
  "schedule_delay r = (case start_time r of None \<Rightarrow> - 1 | Some b \<Rightarrow> b - create_time r)"

definition total_time :: "('f, 'v) AsyncRequest \<Rightarrow> real" where
  "total_time r = (case end_time r of None \<Rightarrow> - 1 | Some e \<Rightarrow> e - create_time r)"

definition is_completed :: "('f, 'v) AsyncRequest \<Rightarrow> bool" where
  "is_completed r = (end_time r \<noteq> None)"

subsection \<open>The request transitions of the specification\<close>




section \<open>arctic/\_compression.py\<close>

type_synonym block = "8 word list"

text \<open>
  The external LZ4 functions: opaque, and each may raise.
\<close>

record codec =
  lz4_compress :: "block \<Rightarrow> error + block"
  lz4_compressHC :: "block \<Rightarrow> error + block"
  lz4_decompress :: "block \<Rightarrow> error + block"

text \<open>
  The objects \<open>_compress_thread_pool\<close> can refer to: a \<open>ThreadPool\<close> of this module
  (with the position of its creation in the trace, which tells two pools apart, and its
  number of workers), or the common \<open>ASYNC_ARCTIC\<close> object, whose attribute
  \<open>_workers_pool\<close> is the pool that \<open>map\<close> is called on in that mode.
\<close>

datatype pool = ThreadPool nat int | ASYNC_ARCTIC | ASYNC_ARCTIC_workers_pool

text \<open>
  What the module does to pools, in order: a call of \<open>_get_compression_pool\<close>, the
  construction of a \<open>ThreadPool\<close>, \<open>close()\<close> and \<open>join()\<close> on a pool, and \<open>map\<close>
  on a pool over a batch of the given length.
\<close>

datatype event = Get_pool | Created pool | Shutdown pool | Mapped pool nat

text \<open>
  The module's globals and the trace of pool events, and with them the one thing the
  module does not decide: \<open>arrival\<close>, the timing of the workers. For the \<open>map\<close> call
  made at a given length of the trace it says which of the failing blocks is the first
  to report its exception. Calls of \<open>logging\<close> are not modelled.
\<close>

record lz4_state =
  ENABLE_PARALLEL :: bool
  LZ4_USE_ASYNC_POOL :: bool
  LZ4_WORKERS :: int
  LZ4_N_PARALLEL :: int
  LZ4_MINSZ_PARALLEL :: real
  BENCHMARK_MODE :: bool
  compress_thread_pool :: "pool option"
  trace :: "event list"
  arrival :: "nat \<Rightarrow> nat"

text \<open>
  \<open>ThreadPool(processes)\<close> raises \<open>ValueError\<close> when \<open>processes < 1\<close>.
\<close>

definition ThreadPool_new :: "int \<Rightarrow> lz4_state \<Rightarrow> (error + pool) \<times> lz4_state" where
  "ThreadPool_new processes s =
     (if processes < 1 then (Inl ValueError, s)
      else (Inr (ThreadPool (length (trace s)) processes),
            s\<lparr>trace := trace s @ [Created (ThreadPool (length (trace s)) processes)]\<rparr>))"

text \<open>
  \<open>close()\<close> then \<open>join()\<close>, inside \<open>try\<close>/\<open>except Exception\<close>: a failure is logged
  and swallowed, so the model records the call and goes on.
\<close>

definition close_and_join :: "pool \<Rightarrow> lz4_state \<Rightarrow> lz4_state" where
  "close_and_join p s = s\<lparr>trace := trace s @ [Shutdown p]\<rparr>"

definition init_thread_pool ::
  "bool option \<Rightarrow> int option \<Rightarrow> lz4_state \<Rightarrow> (error + unit) \<times> lz4_state" where
  "init_thread_pool use_async_pool pool_size s =
     (let use_async = (case use_async_pool of None \<Rightarrow> LZ4_USE_ASYNC_POOL s | Some b \<Rightarrow> b);
          new_size = (case pool_size of None \<Rightarrow> LZ4_WORKERS s | Some n \<Rightarrow> n);
          s1 = (case compress_thread_pool s of
                  None \<Rightarrow> s
                | Some p \<Rightarrow> if LZ4_USE_ASYNC_POOL s then s else close_and_join p s)
      in if use_async
         then (Inr (), s1\<lparr>compress_thread_pool := Some ASYNC_ARCTIC,
                          LZ4_USE_ASYNC_POOL := use_async\<rparr>)
         else (case ThreadPool_new (LZ4_WORKERS s1) s1 of
                 (Inl e, s2) \<Rightarrow> (Inl e, s2)
               | (Inr p, s2) \<Rightarrow>
                   (Inr (), s2\<lparr>compress_thread_pool := Some p, LZ4_WORKERS := new_size\<rparr>)))"

text \<open>
  The attribute \<open>_workers_pool\<close>: \<open>ASYNC_ARCTIC\<close> has it, a \<open>ThreadPool\<close> has not.
\<close>

definition workers_pool :: "pool \<Rightarrow> error + pool" where
  "workers_pool p =
     (case p of ASYNC_ARCTIC \<Rightarrow> Inr ASYNC_ARCTIC_workers_pool | _ \<Rightarrow> Inl AttributeError)"

text \<open>
  \<open>_get_compression_pool\<close>. After a successful \<open>_init_thread_pool\<close> the global is
  never \<open>None\<close>; that branch stands for the attribute error a \<open>None\<close> would give.
\<close>

definition get_compression_pool :: "lz4_state \<Rightarrow> (error + pool) \<times> lz4_state" where
  "get_compression_pool s =
     (case (case compress_thread_pool s of
              None \<Rightarrow> init_thread_pool None None (s\<lparr>trace := trace s @ [Get_pool]\<rparr>)
            | Some _ \<Rightarrow> (Inr (), s\<lparr>trace := trace s @ [Get_pool]\<rparr>)) of
        (Inl e, s1) \<Rightarrow> (Inl e, s1)
      | (Inr _, s1) \<Rightarrow>
          (case compress_thread_pool s1 of
             None \<Rightarrow> (Inl AttributeError, s1)
           | Some p \<Rightarrow> if LZ4_USE_ASYNC_POOL s1 then (workers_pool p, s1) else (Inr p, s1)))"

definition enable_parallel_lz4 :: "bool \<Rightarrow> lz4_state \<Rightarrow> lz4_state" where
  "enable_parallel_lz4 mode s = s\<lparr>ENABLE_PARALLEL := mode\<rparr>"

definition set_compression_pool_size :: "int \<Rightarrow> lz4_state \<Rightarrow> (error + unit) \<times> lz4_state" where
  "set_compression_pool_size pool_size s =
     (if LZ4_USE_ASYNC_POOL s then (Inr (), s)
      else if pool_size < 1 then (Inl ValueError, s)
      else if LZ4_WORKERS s = pool_size then (Inr (), s)
      else init_thread_pool None (Some pool_size) s)"

definition set_use_async_pool :: "bool \<Rightarrow> lz4_state \<Rightarrow> (error + unit) \<times> lz4_state" where
  "set_use_async_pool use_async_pool s =
     (if LZ4_USE_ASYNC_POOL s = use_async_pool then (Inr (), s)
      else init_thread_pool (Some use_async_pool) None s)"

text \<open>
  The list comprehension \<open>[f(s) for s in str_list]\<close>: the blocks in input order, the
  first exception ending it.
\<close>

fun map_blocks :: "('a \<Rightarrow> error + 'b) \<Rightarrow> 'a list \<Rightarrow> error + 'b list" where
  "map_blocks f [] = Inr []"
| "map_blocks f (x # xs) =
     (case f x of
        Inl e \<Rightarrow> Inl e
      | Inr y \<Rightarrow> (case map_blocks f xs of Inl e \<Rightarrow> Inl e | Inr ys \<Rightarrow> Inr (y # ys)))"

text \<open>
  The exceptions of the blocks that fail, in input order.
\<close>

fun failures :: "('a \<Rightarrow> error + 'b) \<Rightarrow> 'a list \<Rightarrow> error list" where
  "failures f [] = []"
| "failures f (x # xs) =
     (case f x of Inl e \<Rightarrow> e # failures f xs | Inr y \<Rightarrow> failures f xs)"

text \<open>
  What \<open>pool.map(f, str_list)\<close> gives. The workers run the blocks side by side. When
  no block fails the result is the list of the results in input order. When blocks
  fail, \<open>map\<close> raises the exception that reaches it first in time, not the one of the
  lowest index: \<open>k\<close>, the timing, picks it among the failing blocks. (The pool hands
  the blocks out in chunks and a chunk stops at its first exception, so it can raise
  only some of them; the model leaves the choice open among all.)
\<close>

definition pool_result :: "nat \<Rightarrow> ('a \<Rightarrow> error + 'b) \<Rightarrow> 'a list \<Rightarrow> error + 'b list" where
  "pool_result k f xs =
     (case failures f xs of
        [] \<Rightarrow> map_blocks f xs
      | e # es \<Rightarrow> Inl ((e # es) ! (k mod length (e # es))))"

text \<open>
  \<open>map\<close> on a pool: a pool that was closed refuses the call.
\<close>

definition pool_map ::
  "pool \<Rightarrow> ('a \<Rightarrow> error + 'b) \<Rightarrow> 'a list \<Rightarrow> lz4_state \<Rightarrow> (error + 'b list) \<times> lz4_state" where
  "pool_map p f xs s =
     (if Shutdown p \<in> set (trace s) then (Inl PoolNotRunning, s)
      else (pool_result (arrival s (length (trace s))) f xs,
            s\<lparr>trace := trace s @ [Mapped p (length xs)]\<rparr>))"

definition via_pool ::
  "('a \<Rightarrow> error + 'b) \<Rightarrow> 'a list \<Rightarrow> lz4_state \<Rightarrow> (error + 'b list) \<times> lz4_state" where
  "via_pool f xs s =
     (case get_compression_pool s of
        (Inl e, s1) \<Rightarrow> (Inl e, s1)
      | (Inr p, s1) \<Rightarrow> pool_map p f xs s1)"

text \<open>
  The local \<open>use_parallel\<close> of \<open>compress_array\<close>. It is computed after the return for
  the empty list, so \<open>str_list[0]\<close> is the head of a non-empty list.
\<close>

definition use_parallel :: "lz4_state \<Rightarrow> block list \<Rightarrow> bool \<Rightarrow> bool" where
  "use_parallel s str_list withHC =
     (ENABLE_PARALLEL s \<and> withHC \<or>
      LZ4_N_PARALLEL s < int (length str_list) \<and>
      LZ4_MINSZ_PARALLEL s < real (length (hd str_list)))"

definition compress_array ::
  "codec \<Rightarrow> block list \<Rightarrow> bool \<Rightarrow> lz4_state \<Rightarrow> (error + block list) \<times> lz4_state" where
  "compress_array c str_list withHC s =
     (if str_list = [] then (Inr str_list, s)
      else if BENCHMARK_MODE s \<or> use_parallel s str_list withHC
      then via_pool (if withHC then lz4_compressHC c else lz4_compress c) str_list s
      else (map_blocks (if withHC then lz4_compressHC c else lz4_compress c) str_list, s))"

definition decompress_array ::
  "codec \<Rightarrow> block list \<Rightarrow> lz4_state \<Rightarrow> (error + block list) \<times> lz4_state" where
  "decompress_array c str_list s =
     (if str_list = [] then (Inr str_list, s)
      else if \<not> ENABLE_PARALLEL s \<or> int (length str_list) \<le> LZ4_N_PARALLEL s
      then (map_blocks (lz4_decompress c) str_list, s)
      else via_pool (lz4_decompress c) str_list s)"

section \<open>Observing the dispatch\<close>

text \<open>
  A run from state \<open>s\<close> to state \<open>s'\<close> went to the execution pool when its part of
  the trace holds a call of \<open>_get_compression_pool\<close>.
\<close>

definition invokes_pool :: "lz4_state \<Rightarrow> lz4_state \<Rightarrow> bool" where
  "invokes_pool s s' = (Get_pool \<in> set (drop (length (trace s)) (trace s')))"

text \<open>
  The globals as the module sets them on import with no environment variable set, and
  before any pool exists. (The timing is of no account where no block fails.)
\<close>

definition default_state :: lz4_state where
  "default_state =
     \<lparr> ENABLE_PARALLEL = True, LZ4_USE_ASYNC_POOL = False, LZ4_WORKERS = 2,
       LZ4_N_PARALLEL = 16, LZ4_MINSZ_PARALLEL = 524288, BENCHMARK_MODE = False,
       compress_thread_pool = None, trace = [], arrival = (\<lambda>n. 0) \<rparr>"

text \<open>A codec for concrete runs: every transform succeeds and returns its input.\<close>

definition plain_codec :: codec where
  "plain_codec = \<lparr> lz4_compress = Inr, lz4_compressHC = Inr, lz4_decompress = Inr \<rparr>"

text \<open>
  A codec whose decompression fails on the empty block with error 0 and on every
  other block with error 1, and a timing under which the second failure is the first
  to report.
\<close>

definition failing_codec :: codec where
  "failing_codec =
     \<lparr> lz4_compress = Inr, lz4_compressHC = Inr,
       lz4_decompress = (\<lambda>b. if b = [] then Inl (TransformError 0) else Inl (TransformError 1)) \<rparr>"

definition second_first :: "nat \<Rightarrow> nat" where
  "second_first n = 1"

text \<open>
  The common async pool selected and installed, and the module's own pool of two
  workers installed: the two modes after the first use of the pool.
\<close>

definition shared_state :: lz4_state where
  "shared_state =
     default_state\<lparr>LZ4_USE_ASYNC_POOL := True, compress_thread_pool := Some ASYNC_ARCTIC\<rparr>"

definition dedicated_state :: lz4_state where
  "dedicated_state =
     default_state\<lparr>compress_thread_pool := Some (ThreadPool 0 2),
                   trace := [Created (ThreadPool 0 2)]\<rparr>"

text \<open>A block of one byte more than the default \<open>LZ4_MINSZ_PARALLEL\<close> of 0.5 MB.\<close>

definition big_block :: block where
  "big_block = replicate 524289 0"

text \<open>
  The invariant of the request's timestamps (section 3 of the specification):
  \<open>createdAt \<le> startedAt \<le> completedAt\<close> whenever each is set.
\<close>

definition timestamps_ordered :: "('f, 'v) AsyncRequest \<Rightarrow> bool" where
  "timestamps_ordered r =
     ((case start_time r of None \<Rightarrow> True | Some b \<Rightarrow> create_time r \<le> b) \<and>
      (case end_time r of None \<Rightarrow> True | Some e \<Rightarrow> create_time r \<le> e) \<and>
      (case start_time r of
         None \<Rightarrow> True
       | Some b \<Rightarrow> (case end_time r of None \<Rightarrow> True | Some e \<Rightarrow> b \<le> e)))"

text \<open>A request as \<open>__init__\<close> leaves it, created at time 100.\<close>

definition fresh_request :: "(unit, nat) AsyncRequest" where
  "fresh_request = AsyncRequest_init 7 100 ACCESSOR ''lib'' () [] [(''symbol'', 3)]"

section \<open>The pool path leaves its mark on the trace\<close>

lemma init_thread_pool_trace:
  "\<exists>es. trace (snd (init_thread_pool a b s)) = trace s @ es"
  by (simp add: init_thread_pool_def ThreadPool_new_def close_and_join_def Let_def
      split: option.splits)

lemma get_compression_pool_trace:
  "\<exists>es. trace (snd (get_compression_pool s)) = trace s @ Get_pool # es"
proof (cases "compress_thread_pool s")
  case None
  obtain es where es: "trace (snd (init_thread_pool None None (s\<lparr>trace := trace s @ [Get_pool]\<rparr>)))
      = trace (s\<lparr>trace := trace s @ [Get_pool]\<rparr>) @ es"
    using init_thread_pool_trace by blast
  show ?thesis
    using None es
    by (auto simp: get_compression_pool_def split: prod.splits sum.splits option.splits)
next
  case (Some p)
  then show ?thesis
    by (simp add: get_compression_pool_def)
qed

lemma via_pool_trace:
  "\<exists>es. trace (snd (via_pool f xs s)) = trace s @ Get_pool # es"
proof -
  obtain es where es: "trace (snd (get_compression_pool s)) = trace s @ Get_pool # es"
    using get_compression_pool_trace by blast
  show ?thesis
    using es by (auto simp: via_pool_def pool_map_def split: prod.splits sum.splits)
qed

lemma via_pool_invokes: "invokes_pool s (snd (via_pool f xs s))"
proof -
  obtain es where "trace (snd (via_pool f xs s)) = trace s @ Get_pool # es"
    using via_pool_trace by blast
  then show ?thesis by (simp add: invokes_pool_def)
qed

lemma not_invokes_pool_same: "\<not> invokes_pool s s"
  by (simp add: invokes_pool_def)

lemma map_blocks_all_ok:
  "(\<And>x. x \<in> set xs \<Longrightarrow> f x = Inr (g x)) \<Longrightarrow> map_blocks f xs = Inr (map g xs)"
  by (induction xs) simp_all

lemma via_pool_frame_minsz:
  "via_pool f xs (s\<lparr>LZ4_MINSZ_PARALLEL := m\<rparr>) =
     (fst (via_pool f xs s), (snd (via_pool f xs s))\<lparr>LZ4_MINSZ_PARALLEL := m\<rparr>)"
  by (simp add: via_pool_def get_compression_pool_def init_thread_pool_def ThreadPool_new_def
      close_and_join_def pool_map_def workers_pool_def Let_def
      split: option.splits prod.splits sum.splits pool.splits)

lemma via_pool_not_same: "via_pool f xs s \<noteq> (r, s)"
proof
  assume "via_pool f xs s = (r, s)"
  then have "trace (snd (via_pool f xs s)) = trace s" by simp
  moreover obtain es where "trace (snd (via_pool f xs s)) = trace s @ Get_pool # es"
    using via_pool_trace by blast
  ultimately show False by simp
qed

lemma failures_all_ok:
  "(\<And>x. x \<in> set xs \<Longrightarrow> f x = Inr (g x)) \<Longrightarrow> failures f xs = []"
  by (induction xs) simp_all

lemma pool_result_all_ok:
  "(\<And>x. x \<in> set xs \<Longrightarrow> f x = Inr (g x)) \<Longrightarrow> pool_result k f xs = Inr (map g xs)"
  by (simp add: pool_result_def failures_all_ok [of xs f g] map_blocks_all_ok [of xs f g])

lemma map_blocks_Inr: "map_blocks Inr xs = Inr xs"
  using map_blocks_all_ok [of xs Inr id] by simp

lemma pool_result_Inr: "pool_result k Inr xs = Inr xs"
  using pool_result_all_ok [of xs Inr id k] by simp

lemma via_pool_obtained:
  "get_compression_pool s = (Inr p, s1) \<Longrightarrow> Shutdown p \<notin> set (trace s1) \<Longrightarrow>
   via_pool f xs s =
     (pool_result (arrival s1 (length (trace s1))) f xs,
      s1\<lparr>trace := trace s1 @ [Mapped p (length xs)]\<rparr>)"
  by (simp add: via_pool_def pool_map_def)

lemma via_pool_closed:
  "get_compression_pool s = (Inr p, s1) \<Longrightarrow> Shutdown p \<in> set (trace s1) \<Longrightarrow>
   via_pool f xs s = (Inl PoolNotRunning, s1)"
  by (simp add: via_pool_def pool_map_def)

lemma via_pool_refused:
  "get_compression_pool s = (Inl e, s1) \<Longrightarrow> via_pool f xs s = (Inl e, s1)"
  by (simp add: via_pool_def)

section \<open>The empty batch\<close>

text \<open>
  C9. \<open>compress_array\<close> and \<open>decompress_array\<close> return the empty batch for the empty
  batch and leave the whole state as it was: no pool is asked for, none is built, and
  no global is read, whatever the flags are.
\<close>

theorem empty_batch:
  "compress_array c [] withHC s = (Inr [], s) \<and> decompress_array c [] s = (Inr [], s)"
  by (simp add: compress_array_def decompress_array_def)

theorem empty_batch_witness:
  "compress_array plain_codec [] True (default_state\<lparr>BENCHMARK_MODE := True\<rparr>)
      = (Inr [], default_state\<lparr>BENCHMARK_MODE := True\<rparr>)
   \<and> decompress_array plain_codec [] (default_state\<lparr>BENCHMARK_MODE := True\<rparr>)
      = (Inr [], default_state\<lparr>BENCHMARK_MODE := True\<rparr>)"
  using empty_batch [of plain_codec True "default_state\<lparr>BENCHMARK_MODE := True\<rparr>"] by simp

section \<open>Dispatch of decompression\<close>

text \<open>
  C7. For a non-empty batch \<open>decompress_array\<close> is \<open>_get_compression_pool().map\<close>
  exactly when \<open>ENABLE_PARALLEL\<close> holds and the batch has more than \<open>LZ4_N_PARALLEL\<close>
  blocks, and exactly otherwise it is the decompression of the blocks one after the
  other on the calling thread, which leaves the state alone. On the pool's side: when
  \<open>_get_compression_pool\<close> returns a pool that was not closed, \<open>map\<close> runs on that
  pool over the whole batch and its result is returned; a closed pool refuses; and an
  exception of \<open>_get_compression_pool\<close> is the exception of the call. Where every block
  decompresses, either way gives the decompressed blocks in input order. The size
  threshold \<open>LZ4_MINSZ_PARALLEL\<close> plays no part: changing it changes neither the
  result nor anything else of the final state.
\<close>

theorem decompress_array_dispatch:
  assumes "str_list \<noteq> []"
  shows "(decompress_array c str_list s = via_pool (lz4_decompress c) str_list s \<longleftrightarrow>
            ENABLE_PARALLEL s \<and> LZ4_N_PARALLEL s < int (length str_list))
       \<and> (decompress_array c str_list s = (map_blocks (lz4_decompress c) str_list, s) \<longleftrightarrow>
            \<not> (ENABLE_PARALLEL s \<and> LZ4_N_PARALLEL s < int (length str_list)))
       \<and> (invokes_pool s (snd (decompress_array c str_list s)) \<longleftrightarrow>
            ENABLE_PARALLEL s \<and> LZ4_N_PARALLEL s < int (length str_list))
       \<and> (\<forall>p s1. ENABLE_PARALLEL s \<and> LZ4_N_PARALLEL s < int (length str_list) \<and>
              get_compression_pool s = (Inr p, s1) \<and> Shutdown p \<notin> set (trace s1) \<longrightarrow>
              decompress_array c str_list s =
                (pool_result (arrival s1 (length (trace s1))) (lz4_decompress c) str_list,
                 s1\<lparr>trace := trace s1 @ [Mapped p (length str_list)]\<rparr>))
       \<and> (\<forall>p s1. ENABLE_PARALLEL s \<and> LZ4_N_PARALLEL s < int (length str_list) \<and>
              get_compression_pool s = (Inr p, s1) \<and> Shutdown p \<in> set (trace s1) \<longrightarrow>
              decompress_array c str_list s = (Inl PoolNotRunning, s1))
       \<and> (\<forall>e s1. ENABLE_PARALLEL s \<and> LZ4_N_PARALLEL s < int (length str_list) \<and>
              get_compression_pool s = (Inl e, s1) \<longrightarrow>
              decompress_array c str_list s = (Inl e, s1))
       \<and> ((\<forall>x \<in> set str_list. lz4_decompress c x = Inr (g x)) \<longrightarrow>
            map_blocks (lz4_decompress c) str_list = Inr (map g str_list) \<and>
            pool_result k (lz4_decompress c) str_list = Inr (map g str_list))
       \<and> decompress_array c str_list (s\<lparr>LZ4_MINSZ_PARALLEL := m\<rparr>) =
            (fst (decompress_array c str_list s),
             (snd (decompress_array c str_list s))\<lparr>LZ4_MINSZ_PARALLEL := m\<rparr>)"
proof -
  have order: "(\<forall>x \<in> set str_list. lz4_decompress c x = Inr (g x)) \<longrightarrow>
            map_blocks (lz4_decompress c) str_list = Inr (map g str_list) \<and>
            pool_result k (lz4_decompress c) str_list = Inr (map g str_list)"
    by (simp add: map_blocks_all_ok pool_result_all_ok)
  show ?thesis
  proof (cases "ENABLE_PARALLEL s \<and> LZ4_N_PARALLEL s < int (length str_list)")
    case True
    then have d: "decompress_array c str_list s = via_pool (lz4_decompress c) str_list s"
      using assms by (simp add: decompress_array_def)
    from True have d': "decompress_array c str_list (s\<lparr>LZ4_MINSZ_PARALLEL := m\<rparr>) =
        via_pool (lz4_decompress c) str_list (s\<lparr>LZ4_MINSZ_PARALLEL := m\<rparr>)"
      using assms by (simp add: decompress_array_def)
    have seq: "via_pool (lz4_decompress c) str_list s
        \<noteq> (map_blocks (lz4_decompress c) str_list, s)"
      by (rule via_pool_not_same)
    have frame: "decompress_array c str_list (s\<lparr>LZ4_MINSZ_PARALLEL := m\<rparr>) =
            (fst (decompress_array c str_list s),
             (snd (decompress_array c str_list s))\<lparr>LZ4_MINSZ_PARALLEL := m\<rparr>)"
      by (simp add: d d' via_pool_frame_minsz)
    show ?thesis
      using True seq order frame
      by (simp add: d via_pool_invokes via_pool_obtained via_pool_closed via_pool_refused)
  next
    case False
    then have d: "decompress_array c str_list s = (map_blocks (lz4_decompress c) str_list, s)"
      using assms by (auto simp: decompress_array_def)
    from False have d': "decompress_array c str_list (s\<lparr>LZ4_MINSZ_PARALLEL := m\<rparr>) =
        (map_blocks (lz4_decompress c) str_list, s\<lparr>LZ4_MINSZ_PARALLEL := m\<rparr>)"
      using assms by (auto simp: decompress_array_def)
    have par: "(map_blocks (lz4_decompress c) str_list, s)
        \<noteq> via_pool (lz4_decompress c) str_list s"
      using via_pool_not_same [of "lz4_decompress c" str_list s] by metis
    show ?thesis
      using False par order by (auto simp add: d d' not_invokes_pool_same)
  qed
qed

text \<open>
  With the default globals, 17 blocks go to a new pool of two workers, which maps over
  them; two blocks are decompressed in place.
\<close>

theorem decompress_array_dispatch_witness:
  "replicate 17 [] \<noteq> ([] :: block list)
   \<and> decompress_array plain_codec (replicate 17 []) default_state =
       (Inr (replicate 17 []),
        default_state\<lparr>compress_thread_pool := Some (ThreadPool 1 2),
          trace := [Get_pool, Created (ThreadPool 1 2), Mapped (ThreadPool 1 2) 17]\<rparr>)
   \<and> decompress_array plain_codec [[1], [2]] default_state = (Inr [[1], [2]], default_state)"
  using decompress_array_dispatch [where str_list = "replicate 17 []" and s = default_state
      and c = plain_codec and g = id and k = 0 and m = 0]
    decompress_array_dispatch [where str_list = "[[1], [2]]" and s = default_state
      and c = plain_codec and g = id and k = 0 and m = 0]
  by (simp add: default_state_def plain_codec_def decompress_array_def via_pool_def
      pool_map_def get_compression_pool_def init_thread_pool_def ThreadPool_new_def Let_def
      pool_result_Inr)

section \<open>Dispatch of compression\<close>

text \<open>
  C2, as the code has it. For a non-empty batch \<open>compress_array\<close> is
  \<open>_get_compression_pool().map\<close> exactly when \<open>BENCHMARK_MODE\<close> is on, or
  \<open>ENABLE_PARALLEL\<close> and \<open>withHC\<close> both hold, or the batch has more than
  \<open>LZ4_N_PARALLEL\<close> blocks and its first block is longer than \<open>LZ4_MINSZ_PARALLEL\<close>;
  of the blocks' sizes only the first one's is read. Exactly otherwise the blocks are
  compressed one after the other and the state is left alone. On the pool's side: when
  \<open>_get_compression_pool\<close> returns a pool that was not closed, \<open>map\<close> runs on that
  pool over the whole batch and its result is returned; a closed pool refuses; and an
  exception of \<open>_get_compression_pool\<close> is the exception of the call.
\<close>

theorem compress_array_dispatch:
  assumes "str_list \<noteq> []"
  shows "(compress_array c str_list withHC s =
            via_pool (if withHC then lz4_compressHC c else lz4_compress c) str_list s \<longleftrightarrow>
            BENCHMARK_MODE s \<or> ENABLE_PARALLEL s \<and> withHC \<or>
            LZ4_N_PARALLEL s < int (length str_list) \<and>
            LZ4_MINSZ_PARALLEL s < real (length (hd str_list)))
       \<and> (compress_array c str_list withHC s =
            (map_blocks (if withHC then lz4_compressHC c else lz4_compress c) str_list, s) \<longleftrightarrow>
            \<not> (BENCHMARK_MODE s \<or> ENABLE_PARALLEL s \<and> withHC \<or>
               LZ4_N_PARALLEL s < int (length str_list) \<and>
               LZ4_MINSZ_PARALLEL s < real (length (hd str_list))))
       \<and> (invokes_pool s (snd (compress_array c str_list withHC s)) \<longleftrightarrow>
            BENCHMARK_MODE s \<or> ENABLE_PARALLEL s \<and> withHC \<or>
            LZ4_N_PARALLEL s < int (length str_list) \<and>
            LZ4_MINSZ_PARALLEL s < real (length (hd str_list)))
       \<and> (\<forall>p s1. (BENCHMARK_MODE s \<or> ENABLE_PARALLEL s \<and> withHC \<or>
               LZ4_N_PARALLEL s < int (length str_list) \<and>
               LZ4_MINSZ_PARALLEL s < real (length (hd str_list))) \<and>
              get_compression_pool s = (Inr p, s1) \<and> Shutdown p \<notin> set (trace s1) \<longrightarrow>
              compress_array c str_list withHC s =
                (pool_result (arrival s1 (length (trace s1)))
                   (if withHC then lz4_compressHC c else lz4_compress c) str_list,
                 s1\<lparr>trace := trace s1 @ [Mapped p (length str_list)]\<rparr>))
       \<and> (\<forall>p s1. (BENCHMARK_MODE s \<or> ENABLE_PARALLEL s \<and> withHC \<or>
               LZ4_N_PARALLEL s < int (length str_list) \<and>
               LZ4_MINSZ_PARALLEL s < real (length (hd str_list))) \<and>
              get_compression_pool s = (Inr p, s1) \<and> Shutdown p \<in> set (trace s1) \<longrightarrow>
              compress_array c str_list withHC s = (Inl PoolNotRunning, s1))
       \<and> (\<forall>e s1. (BENCHMARK_MODE s \<or> ENABLE_PARALLEL s \<and> withHC \<or>
               LZ4_N_PARALLEL s < int (length str_list) \<and>
               LZ4_MINSZ_PARALLEL s < real (length (hd str_list))) \<and>
              get_compression_pool s = (Inl e, s1) \<longrightarrow>
              compress_array c str_list withHC s = (Inl e, s1))"
proof -
  define P where "P \<longleftrightarrow> BENCHMARK_MODE s \<or> ENABLE_PARALLEL s \<and> withHC \<or>
            LZ4_N_PARALLEL s < int (length str_list) \<and>
            LZ4_MINSZ_PARALLEL s < real (length (hd str_list))"
  define f where "f = (if withHC then lz4_compressHC c else lz4_compress c)"
  have branch: "compress_array c str_list withHC s =
      (if P then via_pool f str_list s else (map_blocks f str_list, s))"
    using assms by (simp add: compress_array_def use_parallel_def P_def f_def)
  have apart: "via_pool f str_list s \<noteq> (map_blocks f str_list, s)"
    by (rule via_pool_not_same)
  then have apart': "(map_blocks f str_list, s) \<noteq> via_pool f str_list s"
    by metis
  have "(compress_array c str_list withHC s = via_pool f str_list s \<longleftrightarrow> P)
       \<and> (compress_array c str_list withHC s = (map_blocks f str_list, s) \<longleftrightarrow> \<not> P)
       \<and> (invokes_pool s (snd (compress_array c str_list withHC s)) \<longleftrightarrow> P)
       \<and> (\<forall>p s1. P \<and>
              get_compression_pool s = (Inr p, s1) \<and> Shutdown p \<notin> set (trace s1) \<longrightarrow>
              compress_array c str_list withHC s =
                (pool_result (arrival s1 (length (trace s1))) f str_list,
                 s1\<lparr>trace := trace s1 @ [Mapped p (length str_list)]\<rparr>))
       \<and> (\<forall>p s1. P \<and>
              get_compression_pool s = (Inr p, s1) \<and> Shutdown p \<in> set (trace s1) \<longrightarrow>
              compress_array c str_list withHC s = (Inl PoolNotRunning, s1))
       \<and> (\<forall>e s1. P \<and>
              get_compression_pool s = (Inl e, s1) \<longrightarrow>
              compress_array c str_list withHC s = (Inl e, s1))"
  proof (cases P)
    case True
    then show ?thesis
      using apart
      by (simp add: branch via_pool_invokes via_pool_obtained via_pool_closed via_pool_refused)
  next
    case False
    then show ?thesis
      using apart' by (simp add: branch not_invokes_pool_same)
  qed
  then show ?thesis
    unfolding P_def f_def .
qed

text \<open>
  With the default globals: one empty block with \<open>withHC\<close> is mapped on a new pool;
  without \<open>withHC\<close>, 17 big blocks are mapped on a new pool, 15 are compressed in
  place, and so are 17 blocks of which only the first is small.
\<close>

theorem compress_array_dispatch_witness:
  "[[]] \<noteq> ([] :: block list)
   \<and> compress_array plain_codec [[]] True default_state =
       (Inr [[]],
        default_state\<lparr>compress_thread_pool := Some (ThreadPool 1 2),
          trace := [Get_pool, Created (ThreadPool 1 2), Mapped (ThreadPool 1 2) 1]\<rparr>)
   \<and> replicate 17 big_block \<noteq> []
   \<and> compress_array plain_codec (replicate 17 big_block) False default_state =
       (Inr (replicate 17 big_block),
        default_state\<lparr>compress_thread_pool := Some (ThreadPool 1 2),
          trace := [Get_pool, Created (ThreadPool 1 2), Mapped (ThreadPool 1 2) 17]\<rparr>)
   \<and> compress_array plain_codec (replicate 15 big_block) False default_state =
       (Inr (replicate 15 big_block), default_state)
   \<and> compress_array plain_codec ([] # replicate 16 big_block) False default_state =
       (Inr ([] # replicate 16 big_block), default_state)"
  using compress_array_dispatch [where str_list = "[[]]" and s = default_state
      and c = plain_codec and withHC = True]
    compress_array_dispatch [where str_list = "replicate 17 big_block" and s = default_state
      and c = plain_codec and withHC = False]
    compress_array_dispatch [where str_list = "replicate 15 big_block" and s = default_state
      and c = plain_codec and withHC = False]
    compress_array_dispatch [where str_list = "[] # replicate 16 big_block"
      and s = default_state and c = plain_codec and withHC = False]
  by (simp add: default_state_def plain_codec_def compress_array_def use_parallel_def
      via_pool_def pool_map_def get_compression_pool_def init_thread_pool_def
      ThreadPool_new_def Let_def pool_result_Inr map_blocks_Inr big_block_def)

text \<open>
  With \<open>BENCHMARK_MODE\<close> on, one block of one byte without \<open>withHC\<close> is mapped on a
  new pool, though neither disjunct of \<open>use_parallel\<close> holds.
\<close>

theorem benchmark_mode_counterexample:
  "compress_array plain_codec [[1]] False (default_state\<lparr>BENCHMARK_MODE := True\<rparr>) =
     (Inr [[1]],
      default_state\<lparr>BENCHMARK_MODE := True, compress_thread_pool := Some (ThreadPool 1 2),
        trace := [Get_pool, Created (ThreadPool 1 2), Mapped (ThreadPool 1 2) 1]\<rparr>)
   \<and> \<not> (ENABLE_PARALLEL (default_state\<lparr>BENCHMARK_MODE := True\<rparr>) \<and> False \<or>
         LZ4_N_PARALLEL (default_state\<lparr>BENCHMARK_MODE := True\<rparr>)
           < int (length [[1 :: 8 word]]) \<and>
         LZ4_MINSZ_PARALLEL (default_state\<lparr>BENCHMARK_MODE := True\<rparr>)
           < real (length (hd [[1 :: 8 word]])))"
  by (simp add: compress_array_def via_pool_def pool_map_def get_compression_pool_def
      init_thread_pool_def ThreadPool_new_def Let_def pool_result_Inr default_state_def
      plain_codec_def)

text \<open>
  C1, at \<open>enable_parallel_lz4(False)\<close> on the default globals: \<open>compress_array\<close> of 17
  big blocks without \<open>withHC\<close> still asks for the pool, builds it and maps over it.
  The second disjunct of \<open>use_parallel\<close> does not read \<open>ENABLE_PARALLEL\<close>.
\<close>

theorem sequential_switch_ignored:
  "\<not> ENABLE_PARALLEL (enable_parallel_lz4 False default_state)
   \<and> invokes_pool (enable_parallel_lz4 False default_state)
       (snd (compress_array plain_codec (replicate 17 big_block) False
               (enable_parallel_lz4 False default_state)))
   \<and> trace (snd (compress_array plain_codec (replicate 17 big_block) False
               (enable_parallel_lz4 False default_state)))
     = [Get_pool, Created (ThreadPool 1 2), Mapped (ThreadPool 1 2) 17]"
  by (simp add: compress_array_def use_parallel_def via_pool_def get_compression_pool_def
      init_thread_pool_def ThreadPool_new_def pool_map_def enable_parallel_lz4_def
      default_state_def big_block_def invokes_pool_def Let_def)

section \<open>The pool's mode and size\<close>

text \<open>
  C3, at \<open>set_use_async_pool(False)\<close> in shared mode: a \<open>ThreadPool\<close> is installed but
  \<open>LZ4_USE_ASYNC_POOL\<close> stays true, since only the other branch of
  \<open>_init_thread_pool\<close> assigns it. So \<open>_get_compression_pool\<close> then reads
  \<open>_workers_pool\<close> of a \<open>ThreadPool\<close> and raises; and \<open>set_use_async_pool(True)\<close>
  afterwards finds the flag already true and returns at once, with the \<open>ThreadPool\<close>
  still installed and never closed.
\<close>

theorem dedicated_after_shared_broken:
  "set_use_async_pool False shared_state =
     (Inr (), shared_state\<lparr>compress_thread_pool := Some (ThreadPool 0 2),
                           trace := [Created (ThreadPool 0 2)]\<rparr>)
   \<and> LZ4_USE_ASYNC_POOL (snd (set_use_async_pool False shared_state))
   \<and> fst (get_compression_pool (snd (set_use_async_pool False shared_state)))
       = Inl AttributeError
   \<and> set_use_async_pool True (snd (set_use_async_pool False shared_state)) =
       (Inr (), snd (set_use_async_pool False shared_state))
   \<and> Shutdown (ThreadPool 0 2) \<notin>
       set (trace (snd (set_use_async_pool True (snd (set_use_async_pool False shared_state)))))"
  by (simp add: set_use_async_pool_def init_thread_pool_def ThreadPool_new_def
      get_compression_pool_def workers_pool_def shared_state_def default_state_def Let_def)

text \<open>
  C4, at \<open>set_compression_pool_size(4)\<close> on the module's own pool of two workers: the
  old pool is closed and \<open>LZ4_WORKERS\<close> becomes 4, but the new pool is built from the
  value \<open>LZ4_WORKERS\<close> had before the assignment, so it has two workers again, and that
  pool is what later batches get.
\<close>

theorem resize_keeps_old_size:
  "set_compression_pool_size 4 dedicated_state =
     (Inr (), dedicated_state\<lparr>LZ4_WORKERS := 4, compress_thread_pool := Some (ThreadPool 2 2),
        trace := [Created (ThreadPool 0 2), Shutdown (ThreadPool 0 2), Created (ThreadPool 2 2)]\<rparr>)
   \<and> fst (get_compression_pool (snd (set_compression_pool_size 4 dedicated_state)))
       = Inr (ThreadPool 2 2)"
  by (simp add: set_compression_pool_size_def init_thread_pool_def ThreadPool_new_def
      close_and_join_def get_compression_pool_def dedicated_state_def default_state_def Let_def)

text \<open>
  C5, as the code has it. In shared mode \<open>set_compression_pool_size\<close> returns to its
  caller without raising, whatever its argument, and leaves the whole state unchanged.
\<close>

theorem resize_in_shared_mode:
  assumes "LZ4_USE_ASYNC_POOL s"
  shows "set_compression_pool_size pool_size s = (Inr (), s)"
  using assms by (simp add: set_compression_pool_size_def)

theorem resize_in_shared_mode_witness:
  "LZ4_USE_ASYNC_POOL shared_state
   \<and> set_compression_pool_size 0 shared_state = (Inr (), shared_state)"
  using resize_in_shared_mode [of shared_state 0]
  by (simp add: shared_state_def default_state_def)

text \<open>In shared mode \<open>set_compression_pool_size(4)\<close> returns normally: no error.\<close>

theorem resize_in_shared_mode_counterexample:
  "LZ4_USE_ASYNC_POOL shared_state \<and> fst (set_compression_pool_size 4 shared_state) = Inr ()"
  by (simp add: set_compression_pool_size_def shared_state_def default_state_def)

section \<open>Further properties of the dispatch and of the pool's mode and size\<close>

text \<open>
  X1. With \<open>ENABLE_PARALLEL\<close> off, \<open>decompress_array\<close> never goes to the pool, whatever
  the batch: it leaves the state as it was and returns what decompressing the blocks
  one after the other gives.
\<close>

theorem decompress_array_switch_off:
  assumes "\<not> ENABLE_PARALLEL s"
  shows "snd (decompress_array c str_list s) = s
       \<and> \<not> invokes_pool s (snd (decompress_array c str_list s))
       \<and> fst (decompress_array c str_list s) = map_blocks (lz4_decompress c) str_list"
  using assms by (cases str_list) (simp_all add: decompress_array_def not_invokes_pool_same)

theorem decompress_array_switch_off_witness:
  "\<not> ENABLE_PARALLEL (enable_parallel_lz4 False default_state)
   \<and> snd (decompress_array plain_codec (replicate 17 big_block)
          (enable_parallel_lz4 False default_state)) = enable_parallel_lz4 False default_state"
  using decompress_array_switch_off [of "enable_parallel_lz4 False default_state" plain_codec
      "replicate 17 big_block"]
  by (simp add: enable_parallel_lz4_def default_state_def)

text \<open>
  X2. With the module's own pool installed, \<open>set_use_async_pool(True)\<close> closes and
  joins that pool, installs \<open>ASYNC_ARCTIC\<close> and sets \<open>LZ4_USE_ASYNC_POOL\<close>, after which
  \<open>_get_compression_pool\<close> returns the common pool's workers; and
  \<open>set_use_async_pool(False)\<close> in that state does nothing.
\<close>

theorem switch_to_shared:
  assumes "\<not> LZ4_USE_ASYNC_POOL s" and "compress_thread_pool s = Some p"
  shows "set_use_async_pool True s =
           (Inr (), s\<lparr>LZ4_USE_ASYNC_POOL := True, compress_thread_pool := Some ASYNC_ARCTIC,
                       trace := trace s @ [Shutdown p]\<rparr>)
       \<and> fst (get_compression_pool (snd (set_use_async_pool True s)))
           = Inr ASYNC_ARCTIC_workers_pool
       \<and> set_use_async_pool False s = (Inr (), s)"
  using assms
  by (simp add: set_use_async_pool_def init_thread_pool_def close_and_join_def
      get_compression_pool_def workers_pool_def Let_def)

theorem switch_to_shared_witness:
  "\<not> LZ4_USE_ASYNC_POOL dedicated_state
   \<and> compress_thread_pool dedicated_state = Some (ThreadPool 0 2)
   \<and> trace (snd (set_use_async_pool True dedicated_state))
       = [Created (ThreadPool 0 2), Shutdown (ThreadPool 0 2)]"
  using switch_to_shared [of dedicated_state "ThreadPool 0 2"]
  by (simp add: dedicated_state_def default_state_def)

text \<open>
  X3. Outside shared mode, \<open>set_compression_pool_size\<close> raises \<open>ValueError\<close> for a size
  below 1 and changes nothing; it does nothing for the size \<open>LZ4_WORKERS\<close> already
  holds; and for any other size it succeeds, sets \<open>LZ4_WORKERS\<close> to the new size, and
  installs a pool whose number of workers is the value \<open>LZ4_WORKERS\<close> had before.
\<close>

theorem resize_dedicated:
  assumes "\<not> LZ4_USE_ASYNC_POOL s"
  shows "(pool_size < 1 \<longrightarrow> set_compression_pool_size pool_size s = (Inl ValueError, s))
       \<and> (1 \<le> pool_size \<and> pool_size = LZ4_WORKERS s \<longrightarrow>
            set_compression_pool_size pool_size s = (Inr (), s))
       \<and> (1 \<le> pool_size \<and> pool_size \<noteq> LZ4_WORKERS s \<and> 1 \<le> LZ4_WORKERS s \<longrightarrow>
            (\<exists>n. fst (set_compression_pool_size pool_size s) = Inr () \<and>
               compress_thread_pool (snd (set_compression_pool_size pool_size s))
                 = Some (ThreadPool n (LZ4_WORKERS s)) \<and>
               LZ4_WORKERS (snd (set_compression_pool_size pool_size s)) = pool_size))"
  using assms
  by (auto simp: set_compression_pool_size_def init_thread_pool_def ThreadPool_new_def
      close_and_join_def Let_def split: option.splits)

theorem resize_dedicated_witness:
  "\<not> LZ4_USE_ASYNC_POOL dedicated_state
   \<and> set_compression_pool_size 0 dedicated_state = (Inl ValueError, dedicated_state)
   \<and> set_compression_pool_size 2 dedicated_state = (Inr (), dedicated_state)
   \<and> LZ4_WORKERS (snd (set_compression_pool_size 8 dedicated_state)) = 8"
  using resize_dedicated [of dedicated_state 0] resize_dedicated [of dedicated_state 2]
    resize_dedicated [of dedicated_state 8]
  by (auto simp: dedicated_state_def default_state_def)

text \<open>
  X4. When blocks fail, \<open>map\<close> on a pool raises the exception of one of the failing
  blocks, whichever reports first, while the sequential loop raises the exception of
  the failing block of lowest index.
\<close>

theorem pool_error_by_timing:
  assumes "failures f xs \<noteq> []"
  shows "(\<exists>e \<in> set (failures f xs). pool_result k f xs = Inl e)
       \<and> map_blocks f xs = Inl (hd (failures f xs))"
proof -
  have seq: "failures f xs \<noteq> [] \<Longrightarrow> map_blocks f xs = Inl (hd (failures f xs))"
    by (induction xs) (auto split: sum.splits)
  obtain e es where es: "failures f xs = e # es"
    using assms by (cases "failures f xs") auto
  have "k mod length (e # es) < length (e # es)" by simp
  then have "(e # es) ! (k mod length (e # es)) \<in> set (e # es)"
    by (rule nth_mem)
  then show ?thesis
    using es seq [OF assms] by (simp add: pool_result_def)
qed

theorem pool_error_by_timing_witness:
  "failures (lz4_decompress failing_codec) [[], [1]] \<noteq> []
   \<and> fst (decompress_array failing_codec [[], [1]]
            (default_state\<lparr>LZ4_N_PARALLEL := 1, arrival := second_first\<rparr>))
       = Inl (TransformError 1)
   \<and> fst (decompress_array failing_codec [[], [1]]
            (enable_parallel_lz4 False default_state)) = Inl (TransformError 0)"
  using pool_error_by_timing [of "lz4_decompress failing_codec" "[[], [1]]" 1]
  by (simp add: decompress_array_def via_pool_def pool_map_def get_compression_pool_def
      init_thread_pool_def ThreadPool_new_def Let_def pool_result_def default_state_def
      failing_codec_def second_first_def enable_parallel_lz4_def)

section \<open>AsyncRequest\<close>

text \<open>
  C8, as the code has it. On every request: \<open>schedule_delay\<close> is
  \<open>start_time - create_time\<close> when \<open>start_time\<close> is set and \<open>-1\<close> otherwise,
  \<open>total_time\<close> is \<open>end_time - create_time\<close> when \<open>end_time\<close> is set and \<open>-1\<close>
  otherwise, \<open>is_completed\<close> holds exactly when \<open>end_time\<close> is set, and
  \<open>execution_duration\<close> is \<open>-1\<close> when \<open>end_time\<close> is unset and
  \<open>end_time - start_time\<close> when both are set. Where the timestamps are ordered, an
  accessor returns \<open>-1\<close> only when its timestamp is unset.
\<close>

theorem timing_accessors:
  "(end_time r = None \<longrightarrow> execution_duration r = Inr (- 1))
   \<and> (\<forall>e b. end_time r = Some e \<and> start_time r = Some b \<longrightarrow>
         execution_duration r = Inr (e - b))
   \<and> (start_time r = None \<longrightarrow> schedule_delay r = - 1)
   \<and> (\<forall>b. start_time r = Some b \<longrightarrow> schedule_delay r = b - create_time r)
   \<and> (end_time r = None \<longrightarrow> total_time r = - 1)
   \<and> (\<forall>e. end_time r = Some e \<longrightarrow> total_time r = e - create_time r)
   \<and> (is_completed r \<longleftrightarrow> end_time r \<noteq> None)
   \<and> (timestamps_ordered r \<longrightarrow>
        (execution_duration r = Inr (- 1) \<longleftrightarrow> end_time r = None) \<and>
        (schedule_delay r = - 1 \<longleftrightarrow> start_time r = None) \<and>
        (total_time r = - 1 \<longleftrightarrow> end_time r = None))"
proof -
  have exec: "(end_time r = None \<longrightarrow> execution_duration r = Inr (- 1))
       \<and> (\<forall>e b. end_time r = Some e \<and> start_time r = Some b \<longrightarrow>
             execution_duration r = Inr (e - b))"
    by (simp add: execution_duration_def)
  have sched: "(start_time r = None \<longrightarrow> schedule_delay r = - 1)
       \<and> (\<forall>b. start_time r = Some b \<longrightarrow> schedule_delay r = b - create_time r)"
    by (simp add: schedule_delay_def)
  have total: "(end_time r = None \<longrightarrow> total_time r = - 1)
       \<and> (\<forall>e. end_time r = Some e \<longrightarrow> total_time r = e - create_time r)"
    by (simp add: total_time_def)
  have compl: "is_completed r \<longleftrightarrow> end_time r \<noteq> None"
    by (simp add: is_completed_def)
  have only: "timestamps_ordered r \<longrightarrow>
            (execution_duration r = Inr (- 1) \<longleftrightarrow> end_time r = None) \<and>
            (schedule_delay r = - 1 \<longleftrightarrow> start_time r = None) \<and>
            (total_time r = - 1 \<longleftrightarrow> end_time r = None)"
    by (auto simp: timestamps_ordered_def execution_duration_def schedule_delay_def
        total_time_def split: option.splits)
  from exec sched total compl only show ?thesis by blast
qed

theorem timing_accessors_witness:
  "end_time (fresh_request\<lparr>start_time := Some 101, end_time := Some 104\<rparr>) = Some 104
   \<and> start_time (fresh_request\<lparr>start_time := Some 101, end_time := Some 104\<rparr>) = Some 101
   \<and> timestamps_ordered (fresh_request\<lparr>start_time := Some 101, end_time := Some 104\<rparr>)
   \<and> execution_duration (fresh_request\<lparr>start_time := Some 101, end_time := Some 104\<rparr>) = Inr 3
   \<and> schedule_delay (fresh_request\<lparr>start_time := Some 101, end_time := Some 104\<rparr>) = 1
   \<and> total_time (fresh_request\<lparr>start_time := Some 101, end_time := Some 104\<rparr>) = 4
   \<and> is_completed (fresh_request\<lparr>start_time := Some 101, end_time := Some 104\<rparr>)
   \<and> end_time fresh_request = None \<and> start_time fresh_request = None
   \<and> timestamps_ordered fresh_request
   \<and> execution_duration fresh_request = Inr (- 1)
   \<and> schedule_delay fresh_request = - 1
   \<and> total_time fresh_request = - 1
   \<and> \<not> is_completed fresh_request
   \<and> schedule_delay (fresh_request\<lparr>end_time := Some 104\<rparr>) = - 1
   \<and> total_time (fresh_request\<lparr>end_time := Some 104\<rparr>) = 4"
  using timing_accessors [of "fresh_request\<lparr>start_time := Some 101, end_time := Some 104\<rparr>"]
    timing_accessors [of fresh_request]
    timing_accessors [of "fresh_request\<lparr>end_time := Some 104\<rparr>"]
  by (simp add: fresh_request_def AsyncRequest_init_def timestamps_ordered_def)

text \<open>
  A completed request that was never started: \<open>execution_duration\<close> raises. And a
  request that ended one second before it started: \<open>execution_duration\<close> is \<open>-1\<close> though
  \<open>end_time\<close> is set.
\<close>

theorem timing_accessors_counterexample:
  "is_completed (fresh_request\<lparr>end_time := Some 104\<rparr>)
   \<and> execution_duration (fresh_request\<lparr>end_time := Some 104\<rparr>) = Inl TypeError
   \<and> end_time (fresh_request\<lparr>start_time := Some 105, end_time := Some 104\<rparr>) \<noteq> None
   \<and> execution_duration (fresh_request\<lparr>start_time := Some 105, end_time := Some 104\<rparr>)
       = Inr (- 1)"
  by (simp add: is_completed_def execution_duration_def fresh_request_def AsyncRequest_init_def)

text \<open>
  C10. With \<open>end_time\<close> set and \<open>start_time\<close> unset, \<open>execution_duration\<close> raises
  \<open>TypeError\<close>; it returns a number exactly when \<open>start_time\<close> is set whenever
  \<open>end_time\<close> is.
\<close>

theorem execution_duration_partial:
  "(end_time r \<noteq> None \<and> start_time r = None \<longrightarrow> execution_duration r = Inl TypeError)
   \<and> ((\<exists>v. execution_duration r = Inr v) \<longleftrightarrow> (end_time r \<noteq> None \<longrightarrow> start_time r \<noteq> None))"
  by (auto simp: execution_duration_def split: option.splits)

theorem execution_duration_partial_witness:
  "end_time (fresh_request\<lparr>end_time := Some 250\<rparr>) \<noteq> None
   \<and> start_time (fresh_request\<lparr>end_time := Some 250\<rparr>) = None
   \<and> execution_duration (fresh_request\<lparr>end_time := Some 250\<rparr>) = Inl TypeError
   \<and> execution_duration (fresh_request\<lparr>end_time := Some 250\<rparr>) \<noteq> Inr (- 1)"
  using execution_duration_partial [of "fresh_request\<lparr>end_time := Some 250\<rparr>"]
  by (simp add: fresh_request_def AsyncRequest_init_def)




end
